theory Spec2Isabelle
  imports Main "HOL-Library.Multiset" "HOL-Library.Sublist"
begin

section \<open>The build driver \<open>build.py\<close>\<close>

text \<open>
  \<open>build.py\<close> lists the directory \<open>shaders\<close>, runs \<open>glslangValidator\<close> on every entry
  whose name has exactly three dot-separated segments, and then runs \<open>odin run spark\<close>
  with flags chosen by \<open>sys.argv[1]\<close>. The script is modelled statement by statement.
  Its two contacts with the outside, \<open>os.listdir\<close> and \<open>subprocess.run\<close>, are
  parameters of the model: both take the state of the outside world and return a result
  together with the new world, and both may raise instead of returning.
\<close>

subsection \<open>Python's string and path operations\<close>

text \<open>
  \<open>s.split(sep)\<close> for a one-character separator: the string is cut at every occurrence
  of the separator, empty pieces are kept, and a string without the separator (the empty
  string too) gives a single piece. Names are byte strings here; the dot is one byte and
  never part of a longer UTF-8 sequence, so cutting bytes and cutting code points agree.
\<close>

fun str_split :: "char \<Rightarrow> string \<Rightarrow> string list" where
  "str_split sep [] = [[]]"
| "str_split sep (x # xs) =
     (let items = str_split sep xs
      in if x = sep then [] # items else (x # hd items) # tl items)"

text \<open>\<open>sep.join(items)\<close>.\<close>

fun str_join :: "string \<Rightarrow> string list \<Rightarrow> string" where
  "str_join sep [] = []"
| "str_join sep [x] = x"
| "str_join sep (x # y # ys) = x @ sep @ str_join sep (y # ys)"

text \<open>
  \<open>os.path.join(a, *p)\<close> of \<open>posixpath\<close> (the script starts with \<open>#!/usr/bin/python\<close>):
  a component that starts with the separator replaces what was joined so far; otherwise
  it is appended, after a separator unless the path so far is empty or ends with one.
\<close>

definition join_step :: "string \<Rightarrow> string \<Rightarrow> string" where
  "join_step path b =
     (if take 1 b = ''/'' then b
      else if path = [] \<or> last path = CHR ''/'' then path @ b
      else path @ ''/'' @ b)"

definition os_path_join :: "string \<Rightarrow> string list \<Rightarrow> string" where
  "os_path_join a p = foldl join_step a p"

subsection \<open>The outside world\<close>

text \<open>
  The exceptions that \<open>os.listdir\<close> and \<open>subprocess.run\<close> raise when the directory or the
  executable is missing or not accessible (all are subclasses of \<open>OSError\<close>).
\<close>

datatype py_error = FileNotFoundError | NotADirectoryError | PermissionError

text \<open>The special values of the \<open>stdout\<close> and \<open>stderr\<close> arguments of \<open>subprocess.run\<close>;
  \<open>None\<close> leaves the stream of the child attached to the one of the driver.\<close>

datatype redirect = PIPE | STDOUT | DEVNULL

text \<open>What the driver asks of the outside, in the order it asks.\<close>

datatype event =
    ListDir string
  | Run "string list" "redirect option" "redirect option"

text \<open>
  \<open>listdir env d w\<close> is \<open>os.listdir(d)\<close> in world \<open>w\<close>; \<open>subprocess_run env cmd out err w\<close> is
  \<open>subprocess.run(cmd, stdout=out, stderr=err)\<close>: it starts the process, waits until it has
  terminated and returns its return code (\<open>check\<close> is not set, so no return code raises),
  or raises when the process cannot be started.
\<close>

record 'w os =
  listdir :: "string \<Rightarrow> 'w \<Rightarrow> (py_error + string list) \<times> 'w"
  subprocess_run ::
    "string list \<Rightarrow> redirect option \<Rightarrow> redirect option \<Rightarrow> 'w \<Rightarrow> (py_error + int) \<times> 'w"

record 'w state =
  world :: 'w
  calls :: "event list"

text \<open>A statement either completes or raises an exception that nothing in the script
  catches.\<close>

datatype 'w outcome = Done "'w state" | Uncaught py_error "'w state"

fun final_state :: "'w outcome \<Rightarrow> 'w state" where
  "final_state (Done s) = s"
| "final_state (Uncaught e s) = s"

text \<open>The exit status of the interpreter: 0 when the script runs to its end, 1 when an
  exception is not caught. The script never calls \<open>sys.exit\<close>.\<close>

fun exit_status :: "'w outcome \<Rightarrow> int" where
  "exit_status (Done s) = 0"
| "exit_status (Uncaught e s) = 1"

subsection \<open>The script\<close>

text \<open>\<open>run_cmd\<close>: the completed process is bound to a local variable that is never read.\<close>

definition run_cmd :: "'w os \<Rightarrow> string list \<Rightarrow> 'w state \<Rightarrow> 'w outcome" where
  "run_cmd env cmd s =
     (case subprocess_run env cmd None None (world s) of
        (Inl e, w') \<Rightarrow> Uncaught e \<lparr>world = w', calls = calls s @ [Run cmd None None]\<rparr>
      | (Inr process, w') \<Rightarrow> Done \<lparr>world = w', calls = calls s @ [Run cmd None None]\<rparr>)"

definition shader_name :: "string \<Rightarrow> string" where
  "shader_name entry =
     (let items = str_split CHR ''.'' entry
      in os_path_join ''shaders'' [''bin'', str_join ''.'' (take 2 items) @ ''.spv''])"

definition shader_cmd :: "string \<Rightarrow> string list" where
  "shader_cmd entry =
     [''glslangValidator'', ''-V'', os_path_join ''shaders'' [entry], ''-o'', shader_name entry]"

text \<open>The body of the loop over the listing; \<open>continue\<close> is \<open>Done\<close> with the state as it was.\<close>

definition loop_body :: "'w os \<Rightarrow> string \<Rightarrow> 'w state \<Rightarrow> 'w outcome" where
  "loop_body env entry s =
     (if CHR ''.'' \<notin> set entry then Done s
      else let items = str_split CHR ''.'' entry
        in if length items \<noteq> 3 then Done s
           else run_cmd env (shader_cmd entry) s)"

fun for_entries :: "'w os \<Rightarrow> string list \<Rightarrow> 'w state \<Rightarrow> 'w outcome" where
  "for_entries env [] s = Done s"
| "for_entries env (entry # content) s =
     (case loop_body env entry s of
        Uncaught e s' \<Rightarrow> Uncaught e s'
      | Done s' \<Rightarrow> for_entries env content s')"

definition odin_cmd :: "string list \<Rightarrow> string list" where
  "odin_cmd argv =
     [''odin'', ''run'', ''spark''] @
     (if length argv > 1 \<and> argv ! 1 = ''release'' then [''-o:speed'']
      else [''-o:none'', ''-debug''])"

definition main :: "'w os \<Rightarrow> string list \<Rightarrow> 'w \<Rightarrow> 'w outcome" where
  "main env argv w =
     (case listdir env ''shaders'' w of
        (Inl e, w') \<Rightarrow> Uncaught e \<lparr>world = w', calls = [ListDir ''shaders'']\<rparr>
      | (Inr content, w') \<Rightarrow>
          (case for_entries env content \<lparr>world = w', calls = [ListDir ''shaders'']\<rparr> of
             Uncaught e s \<Rightarrow> Uncaught e s
           | Done s \<Rightarrow> run_cmd env (odin_cmd argv) s))"

subsection \<open>Notions used to state the properties\<close>

text \<open>An entry is compiled when the loop body reaches \<open>run_cmd\<close>.\<close>

definition eligible :: "string \<Rightarrow> bool" where
  "eligible entry \<longleftrightarrow> CHR ''.'' \<in> set entry \<and> length (str_split CHR ''.'' entry) = 3"

text \<open>The requests of a run that goes through: the listing, one compiler process for each
  eligible entry in the order of the listing, the runner.\<close>

definition plan :: "string list \<Rightarrow> string list \<Rightarrow> event list" where
  "plan content argv =
     ListDir ''shaders'' #
     map (\<lambda>entry. Run (shader_cmd entry) None None) (filter eligible content) @
     [Run (odin_cmd argv) None None]"

text \<open>The commands of a run, in the order of the script: the compiler command of each
  eligible entry of the listing, then the runner command.\<close>

definition commands :: "string list \<Rightarrow> string list \<Rightarrow> string list list" where
  "commands content argv = map shader_cmd (filter eligible content) @ [odin_cmd argv]"

text \<open>
  \<open>start_all env cmds w\<close> starts the commands one after another, the first in world \<open>w\<close>
  and each next one in the world its predecessor left behind. It gives the world after
  the last command when every one of them can be started, whatever the return codes are,
  and \<open>None\<close> when \<open>subprocess.run\<close> raises for one of them.
\<close>

fun start_all :: "'w os \<Rightarrow> string list list \<Rightarrow> 'w \<Rightarrow> 'w option" where
  "start_all env [] w = Some w"
| "start_all env (cmd # cmds) w =
     (case subprocess_run env cmd None None w of
        (Inl e, w') \<Rightarrow> None
      | (Inr rc, w') \<Rightarrow> start_all env cmds w')"

text \<open>\<open>run_cmd\<close> on each command of a list, up to the first one that raises.\<close>

fun run_cmds :: "'w os \<Rightarrow> string list list \<Rightarrow> 'w state \<Rightarrow> 'w outcome" where
  "run_cmds env [] s = Done s"
| "run_cmds env (cmd # cmds) s =
     (case run_cmd env cmd s of
        Uncaught e s' \<Rightarrow> Uncaught e s'
      | Done s' \<Rightarrow> run_cmds env cmds s')"

text \<open>Environments without state for concrete runs: a fixed listing, and a result of
  \<open>subprocess.run\<close> that depends on the command only.\<close>

definition fixed_os :: "string list \<Rightarrow> (string list \<Rightarrow> py_error + int) \<Rightarrow> unit os" where
  "fixed_os content result =
     \<lparr>listdir = (\<lambda>d w. (Inr content, w)),
      subprocess_run = (\<lambda>cmd out err w. (result cmd, w))\<rparr>"

definition exits_with :: "int \<Rightarrow> int \<Rightarrow> string list \<Rightarrow> py_error + int" where
  "exits_with rc_compiler rc_runner cmd =
     (if take 1 cmd = [''glslangValidator''] then Inr rc_compiler else Inr rc_runner)"

definition compiler_missing :: "int \<Rightarrow> string list \<Rightarrow> py_error + int" where
  "compiler_missing rc_runner cmd =
     (if take 1 cmd = [''glslangValidator''] then Inl FileNotFoundError else Inr rc_runner)"

text \<open>The tools that are installed, each with the return code it gives; any other
  command cannot be started.\<close>

definition installed :: "(string \<times> int) list \<Rightarrow> string list \<Rightarrow> py_error + int" where
  "installed tools cmd =
     (case cmd of
        [] \<Rightarrow> Inl FileNotFoundError
      | tool # args \<Rightarrow>
          (case map_of tools tool of None \<Rightarrow> Inl FileNotFoundError | Some rc \<Rightarrow> Inr rc))"

text \<open>An environment in which the directory \<open>shaders\<close> does not exist.\<close>

definition no_directory :: "unit os" where
  "no_directory =
     \<lparr>listdir = (\<lambda>d w. (Inl FileNotFoundError, w)),
      subprocess_run = (\<lambda>cmd out err w. (Inr 0, w))\<rparr>"

section \<open>Splitting and joining\<close>

lemma str_split_not_Nil: "str_split sep s \<noteq> []"
  by (induction s) (simp_all add: Let_def)

lemma length_str_split: "length (str_split sep s) = Suc (count_list s sep)"
proof (induction s)
  case Nil
  show ?case by simp
next
  case (Cons x xs)
  have "length (tl (str_split sep xs)) = count_list xs sep"
    using Cons.IH by simp
  then show ?case using Cons.IH by (simp add: Let_def)
qed

lemma str_split_no_sep: "sep \<notin> set s \<Longrightarrow> str_split sep s = [s]"
  by (induction s) (auto simp: Let_def)

lemma str_split_append:
  "sep \<notin> set a \<Longrightarrow> str_split sep (a @ sep # rest) = a # str_split sep rest"
  by (induction a) (auto simp: Let_def)

lemma str_split_three:
  assumes "sep \<notin> set a" "sep \<notin> set b" "sep \<notin> set c"
  shows "str_split sep (a @ sep # b @ sep # c) = [a, b, c]"
  using assms by (simp add: str_split_append str_split_no_sep)

lemma str_split_pieces: "item \<in> set (str_split sep s) \<Longrightarrow> sep \<notin> set item"
proof (induction s arbitrary: item)
  case Nil
  then show ?case by simp
next
  case (Cons x xs)
  obtain y ys where ys: "str_split sep xs = y # ys"
    using str_split_not_Nil [of sep xs] by (cases "str_split sep xs") auto
  have "sep \<notin> set y" and "\<And>i. i \<in> set ys \<Longrightarrow> sep \<notin> set i"
    using Cons.IH ys by auto
  then show ?case using Cons.prems ys by (auto simp: Let_def split: if_splits)
qed

lemma str_join_str_split: "str_join [sep] (str_split sep s) = s"
proof (induction s)
  case Nil
  show ?case by simp
next
  case (Cons x xs)
  obtain y ys where ys: "str_split sep xs = y # ys"
    using str_split_not_Nil [of sep xs] by (cases "str_split sep xs") auto
  show ?case
  proof (cases "x = sep")
    case True
    then show ?thesis using Cons.IH ys by simp
  next
    case False
    then show ?thesis using Cons.IH ys by (cases ys) simp_all
  qed
qed

lemma eligible_two_dots: "eligible entry \<longleftrightarrow> count_list entry CHR ''.'' = 2"
proof -
  have "count_list entry CHR ''.'' = 2 \<Longrightarrow> CHR ''.'' \<in> set entry"
    using count_list_0_iff [of entry "CHR ''.''"] by auto
  then show ?thesis
    by (auto simp: eligible_def length_str_split)
qed

lemma split_three_parts:
  assumes "str_split sep s = [a, b, c]"
  shows "s = a @ sep # b @ sep # c"
proof -
  have "str_join [sep] (str_split sep s) = s" by (rule str_join_str_split)
  then show ?thesis using assms by simp
qed

section \<open>Paths\<close>

lemma os_path_join_shaders:
  "take 1 entry \<noteq> ''/'' \<Longrightarrow> os_path_join ''shaders'' [entry] = ''shaders/'' @ entry"
  by (simp add: os_path_join_def join_step_def)

lemma os_path_join_bin:
  "take 1 file \<noteq> ''/'' \<Longrightarrow> os_path_join ''shaders'' [''bin'', file] = ''shaders/bin/'' @ file"
  by (simp add: os_path_join_def join_step_def)

lemma no_slash_take: "CHR ''/'' \<notin> set entry \<Longrightarrow> take 1 entry \<noteq> ''/''"
  by (cases entry) auto

lemma os_path_join_inj:
  assumes "os_path_join ''shaders'' [e1] = os_path_join ''shaders'' [e2]"
  shows "e1 = e2"
proof -
  have sl: "take 1 e = ''/'' \<Longrightarrow> \<exists>r. e = CHR ''/'' # r" for e :: string
    by (cases e) auto
  show ?thesis
  proof (cases "take 1 e1 = ''/''")
    case True
    then obtain r where r: "e1 = CHR ''/'' # r" using sl by blast
    show ?thesis
    proof (cases "take 1 e2 = ''/''")
      case True
      with \<open>take 1 e1 = ''/''\<close> assms show ?thesis
        by (simp add: os_path_join_def join_step_def)
    next
      case False
      with r assms show ?thesis
        by (simp add: os_path_join_def join_step_def)
    qed
  next
    case False
    show ?thesis
    proof (cases "take 1 e2 = ''/''")
      case True
      then obtain r where "e2 = CHR ''/'' # r" using sl by blast
      with False assms show ?thesis
        by (simp add: os_path_join_def join_step_def)
    next
      case e2: False
      with False assms show ?thesis
        by (simp add: os_path_join_def join_step_def)
    qed
  qed
qed

lemma shader_cmd_inj: "shader_cmd e1 = shader_cmd e2 \<Longrightarrow> e1 = e2"
  by (simp add: shader_cmd_def os_path_join_inj)

lemma shader_name_three:
  assumes "str_split CHR ''.'' entry = [a, b, c]" and "take 1 entry \<noteq> ''/''"
  shows "shader_name entry = ''shaders/bin/'' @ a @ ''.'' @ b @ ''.spv''"
proof -
  have "entry = a @ CHR ''.'' # b @ CHR ''.'' # c"
    using assms(1) by (rule split_three_parts)
  then have "take 1 (a @ ''.'' @ b @ ''.spv'') \<noteq> ''/''"
    using assms(2) by (cases a) auto
  then have "os_path_join ''shaders'' [''bin'', a @ ''.'' @ b @ ''.spv'']
      = ''shaders/bin/'' @ a @ ''.'' @ b @ ''.spv''"
    by (rule os_path_join_bin)
  then show ?thesis using assms(1) by (simp add: shader_name_def)
qed

section \<open>The loop and the whole run\<close>

lemma loop_body_eligible:
  "loop_body env entry s = (if eligible entry then run_cmd env (shader_cmd entry) s else Done s)"
  by (auto simp: loop_body_def eligible_def Let_def)

lemma calls_run_cmd: "calls (final_state (run_cmd env cmd s)) = calls s @ [Run cmd None None]"
  by (simp add: run_cmd_def split: prod.splits sum.splits)

lemma run_cmd_Done: "run_cmd env cmd s = Done s' \<Longrightarrow> calls s' = calls s @ [Run cmd None None]"
  using calls_run_cmd [of env cmd s] by simp

lemma for_entries_Done:
  "for_entries env content s = Done s' \<Longrightarrow>
   calls s' = calls s @ map (\<lambda>entry. Run (shader_cmd entry) None None) (filter eligible content)"
proof (induction content arbitrary: s)
  case Nil
  then show ?case by simp
next
  case (Cons entry content)
  from Cons.prems obtain s1 where b: "loop_body env entry s = Done s1"
    and r: "for_entries env content s1 = Done s'"
    by (auto split: outcome.splits)
  have "calls s1 = calls s @ (if eligible entry then [Run (shader_cmd entry) None None] else [])"
    using b by (auto simp: loop_body_eligible dest: run_cmd_Done split: if_splits)
  then show ?case using Cons.IH [OF r] by simp
qed

lemma for_entries_calls:
  "ev \<in> set (calls (final_state (for_entries env content s))) \<Longrightarrow>
   ev \<in> set (calls s) \<or>
   (\<exists>entry \<in> set content. eligible entry \<and> ev = Run (shader_cmd entry) None None)"
proof (induction content arbitrary: s)
  case Nil
  then show ?case by simp
next
  case (Cons entry content)
  have body: "calls (final_state (loop_body env entry s)) =
      calls s @ (if eligible entry then [Run (shader_cmd entry) None None] else [])"
    by (simp add: loop_body_eligible calls_run_cmd)
  show ?case
  proof (cases "loop_body env entry s")
    case (Done s1)
    with Cons.prems have "ev \<in> set (calls (final_state (for_entries env content s1)))"
      by simp
    from Cons.IH [OF this] body Done show ?thesis
      by (auto split: if_splits)
  next
    case (Uncaught e s1)
    with Cons.prems body show ?thesis by (auto split: if_splits)
  qed
qed

lemma main_Done:
  assumes "listdir env ''shaders'' w = (Inr content, w')" and "main env argv w = Done s"
  shows "calls s = plan content argv"
proof -
  from assms obtain s1
    where l: "for_entries env content \<lparr>world = w', calls = [ListDir ''shaders'']\<rparr> = Done s1"
      and r: "run_cmd env (odin_cmd argv) s1 = Done s"
    by (auto simp: main_def split: outcome.splits)
  show ?thesis
    using for_entries_Done [OF l] run_cmd_Done [OF r] by (simp add: plan_def)
qed

lemmas run_defs = main_def fixed_os_def exits_with_def compiler_missing_def loop_body_def
  run_cmd_def shader_cmd_def shader_name_def os_path_join_def join_step_def odin_cmd_def Let_def

lemma Run_in_plan:
  "Run (shader_cmd e) None None \<in> set (plan content argv) \<longleftrightarrow> e \<in> set content \<and> eligible e"
proof -
  have "shader_cmd e \<noteq> odin_cmd argv"
    by (simp add: shader_cmd_def odin_cmd_def)
  then show ?thesis
    by (auto simp: plan_def dest: shader_cmd_inj)
qed

lemma main_calls:
  assumes "listdir env ''shaders'' w = (Inr content, w')"
    and "ev \<in> set (calls (final_state (main env argv w)))"
  shows "ev = ListDir ''shaders'' \<or> ev = Run (odin_cmd argv) None None \<or>
    (\<exists>entry \<in> set content. eligible entry \<and> ev = Run (shader_cmd entry) None None)"
proof (cases "for_entries env content \<lparr>world = w', calls = [ListDir ''shaders'']\<rparr>")
  case (Done s1)
  then have "calls (final_state (main env argv w)) = calls s1 @ [Run (odin_cmd argv) None None]"
    using assms(1) by (simp add: main_def calls_run_cmd)
  moreover have "ev' \<in> set (calls s1) \<Longrightarrow> ev' = ListDir ''shaders'' \<or>
      (\<exists>entry \<in> set content. eligible entry \<and> ev' = Run (shader_cmd entry) None None)" for ev'
    using for_entries_calls [of ev' env content "\<lparr>world = w', calls = [ListDir ''shaders'']\<rparr>"]
      Done by simp
  ultimately show ?thesis using assms(2) by auto
next
  case (Uncaught e s1)
  then have "final_state (main env argv w) =
      final_state (for_entries env content \<lparr>world = w', calls = [ListDir ''shaders'']\<rparr>)"
    using assms(1) by (simp add: main_def)
  then show ?thesis
    using for_entries_calls [of ev env content "\<lparr>world = w', calls = [ListDir ''shaders'']\<rparr>"]
      assms(2) by auto
qed

section \<open>The run as a sequence of commands\<close>

lemma for_entries_run_cmds:
  "for_entries env content s = run_cmds env (map shader_cmd (filter eligible content)) s"
  by (induction content arbitrary: s) (simp_all add: loop_body_eligible split: outcome.splits)

lemma run_cmds_append:
  "run_cmds env (xs @ ys) s =
     (case run_cmds env xs s of
        Uncaught e s' \<Rightarrow> Uncaught e s'
      | Done s' \<Rightarrow> run_cmds env ys s')"
  by (induction xs arbitrary: s) (simp_all split: outcome.splits)

lemma main_run_cmds:
  assumes "listdir env ''shaders'' w = (Inr content, w')"
  shows "main env argv w =
    run_cmds env (commands content argv) \<lparr>world = w', calls = [ListDir ''shaders'']\<rparr>"
  using assms
  by (simp add: main_def commands_def run_cmds_append for_entries_run_cmds split: outcome.splits)

lemma start_all_append:
  "start_all env (xs @ ys) w =
     (case start_all env xs w of None \<Rightarrow> None | Some w1 \<Rightarrow> start_all env ys w1)"
  by (induction xs arbitrary: w) (simp_all split: prod.splits sum.splits)

lemma run_cmds_start_all:
  "start_all env cmds (world s) = Some w1 \<Longrightarrow>
   run_cmds env cmds s = Done \<lparr>world = w1, calls = calls s @ map (\<lambda>c. Run c None None) cmds\<rparr>"
proof (induction cmds arbitrary: s)
  case Nil
  then show ?case by simp
next
  case (Cons cmd cmds)
  from Cons.prems obtain rc w' where r: "subprocess_run env cmd None None (world s) = (Inr rc, w')"
    and rest: "start_all env cmds w' = Some w1"
    by (auto split: prod.splits sum.splits)
  have "run_cmd env cmd s = Done \<lparr>world = w', calls = calls s @ [Run cmd None None]\<rparr>"
    using r by (simp add: run_cmd_def)
  then show ?case
    using Cons.IH [of "\<lparr>world = w', calls = calls s @ [Run cmd None None]\<rparr>"] rest by simp
qed

lemma run_cmds_first_failure:
  assumes "start_all env pre (world s) = Some w1"
    and "subprocess_run env cmd None None w1 = (Inl e, w2)"
  shows "run_cmds env (pre @ cmd # post) s =
    Uncaught e \<lparr>world = w2, calls = calls s @ map (\<lambda>c. Run c None None) (pre @ [cmd])\<rparr>"
  using run_cmds_start_all [OF assms(1)] assms(2)
  by (simp add: run_cmds_append run_cmd_def)

lemma run_cmds_not_started:
  "start_all env cmds (world s) = None \<Longrightarrow> \<exists>e s'. run_cmds env cmds s = Uncaught e s'"
proof (induction cmds arbitrary: s)
  case Nil
  then show ?case by simp
next
  case (Cons cmd cmds)
  show ?case
  proof (cases "subprocess_run env cmd None None (world s)")
    case (Pair r w')
    show ?thesis
    proof (cases r)
      case (Inl e)
      then show ?thesis using Pair by (simp add: run_cmd_def)
    next
      case (Inr rc)
      then have "start_all env cmds w' = None"
        using Cons.prems Pair by simp
      then show ?thesis
        using Cons.IH [of "\<lparr>world = w', calls = calls s @ [Run cmd None None]\<rparr>"] Pair Inr
        by (simp add: run_cmd_def)
    qed
  qed
qed

lemma run_cmds_calls:
  "\<exists>k. calls (final_state (run_cmds env cmds s)) =
     calls s @ map (\<lambda>c. Run c None None) (take k cmds)"
proof (induction cmds arbitrary: s)
  case Nil
  show ?case by simp
next
  case (Cons cmd cmds)
  show ?case
  proof (cases "run_cmd env cmd s")
    case (Done s1)
    then have c: "calls s1 = calls s @ [Run cmd None None]"
      by (rule run_cmd_Done)
    obtain k where "calls (final_state (run_cmds env cmds s1)) =
        calls s1 @ map (\<lambda>c. Run c None None) (take k cmds)"
      using Cons.IH [of s1] by blast
    then have "calls (final_state (run_cmds env (cmd # cmds) s)) =
        calls s @ map (\<lambda>c. Run c None None) (take (Suc k) (cmd # cmds))"
      using Done c by simp
    then show ?thesis by blast
  next
    case (Uncaught e s1)
    then have "calls s1 = calls s @ [Run cmd None None]"
      using calls_run_cmd [of env cmd s] by simp
    then have "calls (final_state (run_cmds env (cmd # cmds) s)) =
        calls s @ map (\<lambda>c. Run c None None) (take (Suc 0) (cmd # cmds))"
      using Uncaught by simp
    then show ?thesis by blast
  qed
qed

lemma main_calls_prefix:
  assumes "listdir env ''shaders'' w = (Inr content, w')"
  shows "prefix (calls (final_state (main env argv w))) (plan content argv)"
proof -
  obtain k where "calls (final_state (main env argv w)) =
      ListDir ''shaders'' # map (\<lambda>c. Run c None None) (take k (commands content argv))"
    using run_cmds_calls [of env "commands content argv" "\<lparr>world = w', calls = [ListDir ''shaders'']\<rparr>"]
      main_run_cmds [OF assms, of argv] by auto
  moreover have "plan content argv =
      ListDir ''shaders'' # map (\<lambda>c. Run c None None) (commands content argv)"
    by (simp add: plan_def commands_def)
  ultimately show ?thesis
    by (simp add: take_is_prefix map_mono_prefix)
qed

lemma run_cmds_keeps:
  assumes "ev \<in> set (calls s)"
  shows "ev \<in> set (calls (final_state (run_cmds env cmds s)))"
proof -
  obtain k where "calls (final_state (run_cmds env cmds s)) =
      calls s @ map (\<lambda>c. Run c None None) (take k cmds)"
    using run_cmds_calls by blast
  then show ?thesis using assms by simp
qed

lemma run_cmds_head:
  "Run cmd None None \<in> set (calls (final_state (run_cmds env (cmd # post) s)))"
proof (cases "run_cmd env cmd s")
  case (Done s1)
  then have "Run cmd None None \<in> set (calls s1)"
    using run_cmd_Done [of env cmd s s1] by simp
  then show ?thesis using Done run_cmds_keeps [of _ s1 env post] by simp
next
  case (Uncaught e s1)
  then show ?thesis using calls_run_cmd [of env cmd s] by simp
qed

lemma main_reaches:
  assumes "listdir env ''shaders'' w = (Inr (before @ entry # after), w')"
    and "start_all env (map shader_cmd (filter eligible before)) w' = Some w1"
    and "eligible entry"
  shows "Run (shader_cmd entry) None None \<in> set (calls (final_state (main env argv w)))"
proof -
  let ?s0 = "\<lparr>world = w', calls = [ListDir ''shaders'']\<rparr>"
  let ?pre = "map shader_cmd (filter eligible before)"
  let ?post = "map shader_cmd (filter eligible after) @ [odin_cmd argv]"
  let ?s1 = "\<lparr>world = w1, calls = calls ?s0 @ map (\<lambda>c. Run c None None) ?pre\<rparr>"
  have m: "main env argv w = run_cmds env (?pre @ shader_cmd entry # ?post) ?s0"
    using main_run_cmds [OF assms(1), of argv] assms(3) by (simp add: commands_def)
  have p: "run_cmds env ?pre ?s0 = Done ?s1"
    using run_cmds_start_all [of env ?pre ?s0 w1] assms(2) by simp
  have "main env argv w = run_cmds env (shader_cmd entry # ?post) ?s1"
    unfolding m run_cmds_append [of env ?pre] p by simp
  then show ?thesis
    using run_cmds_head [of "shader_cmd entry" env ?post ?s1] by simp
qed

lemmas run_defs2 = run_defs installed_def commands_def eligible_def plan_def no_directory_def

lemma main_started:
  assumes "listdir env ''shaders'' w = (Inr content, w')"
    and "start_all env (commands content argv) w' = Some w1"
  shows "main env argv w = Done \<lparr>world = w1, calls = plan content argv\<rparr>"
  using run_cmds_start_all [of env "commands content argv"
      "\<lparr>world = w', calls = [ListDir ''shaders'']\<rparr>" w1] assms
  by (simp add: main_run_cmds plan_def commands_def)

lemma main_first_failure:
  assumes "listdir env ''shaders'' w = (Inr content, w')"
    and "commands content argv = pre @ cmd # post"
    and "start_all env pre w' = Some w2"
    and "subprocess_run env cmd None None w2 = (Inl e, w3)"
  shows "main env argv w =
    Uncaught e \<lparr>world = w3, calls = ListDir ''shaders'' # map (\<lambda>c. Run c None None) (pre @ [cmd])\<rparr>"
  using run_cmds_first_failure [of env pre "\<lparr>world = w', calls = [ListDir ''shaders'']\<rparr>"
      w2 cmd e w3 post] assms
  by (simp add: main_run_cmds)

lemma main_compilers_started:
  assumes "listdir env ''shaders'' w = (Inr content, w')"
    and "start_all env (map shader_cmd (filter eligible content)) w' = Some w1"
  shows "calls (final_state (main env argv w)) = plan content argv"
proof -
  let ?s0 = "\<lparr>world = w', calls = [ListDir ''shaders'']\<rparr>"
  let ?cs = "map shader_cmd (filter eligible content)"
  have "run_cmds env ?cs ?s0 =
      Done \<lparr>world = w1, calls = calls ?s0 @ map (\<lambda>c. Run c None None) ?cs\<rparr>"
    using run_cmds_start_all [of env ?cs ?s0 w1] assms(2) by simp
  then have "main env argv w = run_cmd env (odin_cmd argv)
      \<lparr>world = w1, calls = calls ?s0 @ map (\<lambda>c. Run c None None) ?cs\<rparr>"
    using main_run_cmds [OF assms(1), of argv]
    by (simp add: commands_def run_cmds_append split: outcome.splits)
  then show ?thesis
    by (simp add: calls_run_cmd plan_def)
qed

lemma main_not_started:
  assumes "listdir env ''shaders'' w = (Inr content, w')"
    and "start_all env (commands content argv) w' = None"
  shows "\<exists>e s. main env argv w = Uncaught e s"
  using run_cmds_not_started [of env "commands content argv"
      "\<lparr>world = w', calls = [ListDir ''shaders'']\<rparr>"] assms
  by (simp add: main_run_cmds)

lemma invoked_is_eligible:
  assumes "listdir env ''shaders'' w = (Inr content, w')"
    and "Run (shader_cmd entry) None None \<in> set (calls (final_state (main env argv w)))"
  shows "entry \<in> set content \<and> eligible entry"
proof -
  have "shader_cmd entry \<noteq> odin_cmd argv"
    by (simp add: shader_cmd_def odin_cmd_def)
  then show ?thesis
    using main_calls [OF assms] by (auto dest: shader_cmd_inj)
qed

lemma start_all_prefix:
  "start_all env (xs @ ys) w = Some w1 \<Longrightarrow> \<exists>w2. start_all env xs w = Some w2"
  by (simp add: start_all_append split: option.splits)

section \<open>Which entries are compiled, and to which file\<close>

text \<open>
  Claim C1, for the entries that the loop reaches. In every run the compiler is started
  for an entry only if the entry is in the listing, its name contains a dot and
  \<open>split(".")\<close> gives exactly three segments; every other entry is passed over, with
  the state as before and nothing raised. The compiler is started for an entry with
  three segments whenever the loop reaches it, that is when the compiler process of
  every eligible entry before it could be started; so it is started for exactly the
  entries with three segments when every compiler process of the run can be started.
  The number of segments is the number of dots plus one.
\<close>

theorem compiler_invoked_for_reached_entries:
  assumes "listdir env ''shaders'' w = (Inr content, w')"
  shows "(Run (shader_cmd entry) None None \<in> set (calls (final_state (main env argv w))) \<longrightarrow>
        entry \<in> set content \<and>
        CHR ''.'' \<in> set entry \<and> length (str_split CHR ''.'' entry) = 3)
    \<and> (content = before @ entry # after \<and>
       start_all env (map shader_cmd (filter eligible before)) w' = Some w1 \<and>
       CHR ''.'' \<in> set entry \<and> length (str_split CHR ''.'' entry) = 3 \<longrightarrow>
        Run (shader_cmd entry) None None \<in> set (calls (final_state (main env argv w))))
    \<and> (start_all env (map shader_cmd (filter eligible content)) w' = Some w2 \<longrightarrow>
        (\<forall>e \<in> set content.
           Run (shader_cmd e) None None \<in> set (calls (final_state (main env argv w))) \<longleftrightarrow>
           CHR ''.'' \<in> set e \<and> length (str_split CHR ''.'' e) = 3))
    \<and> (\<not> (CHR ''.'' \<in> set entry \<and> length (str_split CHR ''.'' entry) = 3) \<longrightarrow>
        loop_body env entry s = Done s)
    \<and> length (str_split CHR ''.'' entry) = count_list entry CHR ''.'' + 1"
proof -
  have only: "Run (shader_cmd x) None None \<in> set (calls (final_state (main env argv w))) \<Longrightarrow>
      x \<in> set content \<and> CHR ''.'' \<in> set x \<and> length (str_split CHR ''.'' x) = 3" for x
    using invoked_is_eligible [OF assms, of x argv] by (simp add: eligible_def)
  have reached: "Run (shader_cmd entry) None None \<in> set (calls (final_state (main env argv w)))"
    if "content = before @ entry # after"
      and "start_all env (map shader_cmd (filter eligible before)) w' = Some w1"
      and "CHR ''.'' \<in> set entry \<and> length (str_split CHR ''.'' entry) = 3"
    using main_reaches [of env w before entry after w' w1 argv] assms that
    by (simp add: eligible_def)
  have every: "Run (shader_cmd x) None None \<in> set (calls (final_state (main env argv w)))"
    if "start_all env (map shader_cmd (filter eligible content)) w' = Some w2"
      and "x \<in> set content" and "CHR ''.'' \<in> set x \<and> length (str_split CHR ''.'' x) = 3" for x
  proof -
    have "Run (shader_cmd x) None None \<in> set (plan content argv)"
      using that(2,3) by (simp add: Run_in_plan eligible_def)
    then show ?thesis
      using main_compilers_started [OF assms that(1), of argv] by simp
  qed
  have skip: "\<not> (CHR ''.'' \<in> set entry \<and> length (str_split CHR ''.'' entry) = 3) \<Longrightarrow>
      loop_body env entry s = Done s"
    by (auto simp: loop_body_eligible eligible_def)
  have len: "length (str_split CHR ''.'' entry) = count_list entry CHR ''.'' + 1"
    by (simp add: length_str_split)
  show ?thesis
    using only [of entry] reached every only skip len by blast
qed

theorem compiler_invoked_for_reached_entries_witness:
  "listdir (fixed_os [''tri.vert.glsl'', ''readme.txt'', ''a.b.c.glsl'', ''tri.frag.glsl'']
        (installed [(''glslangValidator'', 1)])) ''shaders'' () =
     (Inr [''tri.vert.glsl'', ''readme.txt'', ''a.b.c.glsl'', ''tri.frag.glsl''], ())
   \<and> [''tri.vert.glsl'', ''readme.txt'', ''a.b.c.glsl'', ''tri.frag.glsl''] =
       [''tri.vert.glsl'', ''readme.txt'', ''a.b.c.glsl''] @ ''tri.frag.glsl'' # []
   \<and> start_all (fixed_os [''tri.vert.glsl'', ''readme.txt'', ''a.b.c.glsl'', ''tri.frag.glsl'']
        (installed [(''glslangValidator'', 1)]))
       (map shader_cmd (filter eligible [''tri.vert.glsl'', ''readme.txt'', ''a.b.c.glsl''])) () =
       Some ()
   \<and> CHR ''.'' \<in> set ''tri.frag.glsl'' \<and> length (str_split CHR ''.'' ''tri.frag.glsl'') = 3
   \<and> Run [''glslangValidator'', ''-V'', ''shaders/tri.frag.glsl'', ''-o'',
          ''shaders/bin/tri.frag.spv''] None None
       \<in> set (calls (final_state
         (main (fixed_os [''tri.vert.glsl'', ''readme.txt'', ''a.b.c.glsl'', ''tri.frag.glsl'']
            (installed [(''glslangValidator'', 1)])) [''build.py''] ())))
   \<and> length (str_split CHR ''.'' ''readme.txt'') = 2
   \<and> loop_body (fixed_os [''tri.vert.glsl'', ''readme.txt'', ''a.b.c.glsl'', ''tri.frag.glsl'']
        (installed [(''glslangValidator'', 1)])) ''readme.txt'' \<lparr>world = (), calls = []\<rparr> =
       Done \<lparr>world = (), calls = []\<rparr>
   \<and> Run (shader_cmd ''readme.txt'') None None
       \<notin> set (calls (final_state
         (main (fixed_os [''tri.vert.glsl'', ''readme.txt'', ''a.b.c.glsl'', ''tri.frag.glsl'']
            (installed [(''glslangValidator'', 1)])) [''build.py''] ())))"
  using compiler_invoked_for_reached_entries
      [of "fixed_os [''tri.vert.glsl'', ''readme.txt'', ''a.b.c.glsl'', ''tri.frag.glsl'']
            (installed [(''glslangValidator'', 1)])" "()"
        "[''tri.vert.glsl'', ''readme.txt'', ''a.b.c.glsl'', ''tri.frag.glsl'']" "()"
        "''tri.frag.glsl''" "[''build.py'']" "[''tri.vert.glsl'', ''readme.txt'', ''a.b.c.glsl'']"
        "[]" "()" "()" "\<lparr>world = (), calls = []\<rparr>"]
    compiler_invoked_for_reached_entries
      [of "fixed_os [''tri.vert.glsl'', ''readme.txt'', ''a.b.c.glsl'', ''tri.frag.glsl'']
            (installed [(''glslangValidator'', 1)])" "()"
        "[''tri.vert.glsl'', ''readme.txt'', ''a.b.c.glsl'', ''tri.frag.glsl'']" "()"
        "''readme.txt''" "[''build.py'']" "[''tri.vert.glsl'']"
        "[''a.b.c.glsl'', ''tri.frag.glsl'']" "()" "()" "\<lparr>world = (), calls = []\<rparr>"]
  by (simp add: run_defs2)

text \<open>
  For every entry of the listing in every run, as claim C1 is worded, this fails: when
  the compiler cannot be started the run ends at the first eligible entry, and an
  eligible entry after it is never compiled.
\<close>

theorem later_entry_not_compiled_counterexample:
  "listdir (fixed_os [''a.vert.glsl'', ''b.frag.glsl''] (compiler_missing 0)) ''shaders'' () =
     (Inr [''a.vert.glsl'', ''b.frag.glsl''], ())
   \<and> ''b.frag.glsl'' \<in> set [''a.vert.glsl'', ''b.frag.glsl'']
   \<and> CHR ''.'' \<in> set ''b.frag.glsl'' \<and> length (str_split CHR ''.'' ''b.frag.glsl'') = 3
   \<and> Run (shader_cmd ''b.frag.glsl'') None None \<notin>
       set (calls (final_state
         (main (fixed_os [''a.vert.glsl'', ''b.frag.glsl''] (compiler_missing 0)) [''build.py''] ())))"
  by (simp add: run_defs2)

text \<open>
  Claim C2. When an entry splits into exactly the three segments \<open>name\<close>, \<open>stage\<close>,
  \<open>ext\<close>, the output path handed to the compiler is \<open>shaders/bin/name.stage.spv\<close>.
  The entry is a name returned by \<open>os.listdir\<close>, a single path component, so it holds
  no \<open>/\<close>.
\<close>

theorem output_path_keeps_name_and_stage:
  assumes "str_split CHR ''.'' entry = [name, stage, ext]" and "CHR ''/'' \<notin> set entry"
  shows "entry = name @ ''.'' @ stage @ ''.'' @ ext \<and>
     CHR ''.'' \<notin> set name \<and> CHR ''.'' \<notin> set stage \<and> CHR ''.'' \<notin> set ext \<and>
     shader_name entry = ''shaders/bin/'' @ name @ ''.'' @ stage @ ''.spv'' \<and>
     last (shader_cmd entry) = ''shaders/bin/'' @ name @ ''.'' @ stage @ ''.spv''"
proof -
  have "CHR ''.'' \<notin> set item" if "item \<in> set [name, stage, ext]" for item
    using that str_split_pieces [of item "CHR ''.''" entry] assms(1) by simp
  then have d: "CHR ''.'' \<notin> set name \<and> CHR ''.'' \<notin> set stage \<and> CHR ''.'' \<notin> set ext"
    by simp
  have e: "entry = name @ ''.'' @ stage @ ''.'' @ ext"
    using split_three_parts [OF assms(1)] by simp
  have n: "shader_name entry = ''shaders/bin/'' @ name @ ''.'' @ stage @ ''.spv''"
    using shader_name_three [OF assms(1) no_slash_take [OF assms(2)]] by simp
  have "last (shader_cmd entry) = shader_name entry"
    by (simp add: shader_cmd_def)
  with d e n show ?thesis by simp
qed

theorem output_path_keeps_name_and_stage_witness:
  "str_split CHR ''.'' ''foo.vert.glsl'' = [''foo'', ''vert'', ''glsl'']
   \<and> CHR ''/'' \<notin> set ''foo.vert.glsl''
   \<and> shader_name ''foo.vert.glsl'' = ''shaders/bin/foo.vert.spv''
   \<and> last (shader_cmd ''foo.vert.glsl'') = ''shaders/bin/foo.vert.spv''"
  using output_path_keeps_name_and_stage [of "''foo.vert.glsl''" "''foo''" "''vert''" "''glsl''"]
  by simp

section \<open>The flags of the runner\<close>

text \<open>
  Claim C3. The flags appended to \<open>odin run spark\<close> depend on \<open>sys.argv[1]\<close> alone:
  \<open>-o:speed\<close> when it is there and equal to \<open>release\<close>, \<open>-o:none -debug\<close> when it is
  anything else or absent; the program name and later arguments make no difference. The
  command so built is the last call of a run that reaches its end.
\<close>

theorem flags_from_first_argument:
  "odin_cmd [] = [''odin'', ''run'', ''spark'', ''-o:none'', ''-debug'']
   \<and> odin_cmd [prog] = [''odin'', ''run'', ''spark'', ''-o:none'', ''-debug'']
   \<and> odin_cmd (prog # ''release'' # rest) = [''odin'', ''run'', ''spark'', ''-o:speed'']
   \<and> (arg \<noteq> ''release'' \<longrightarrow>
        odin_cmd (prog # arg # rest) = [''odin'', ''run'', ''spark'', ''-o:none'', ''-debug''])
   \<and> odin_cmd (prog # arg # rest) = odin_cmd (prog' # arg # rest')
   \<and> (main env argv w = Done s \<longrightarrow> last (calls s) = Run (odin_cmd argv) None None)"
proof -
  have "main env argv w = Done s \<Longrightarrow> last (calls s) = Run (odin_cmd argv) None None"
    by (auto simp: main_def split: prod.splits sum.splits outcome.splits dest: run_cmd_Done)
  then show ?thesis by (simp add: odin_cmd_def)
qed

theorem flags_from_first_argument_witness:
  "''debug'' \<noteq> ''release''
   \<and> odin_cmd [''build.py'', ''debug'', ''release''] =
       [''odin'', ''run'', ''spark'', ''-o:none'', ''-debug'']
   \<and> odin_cmd [''build.py'', ''release'', ''x''] = [''odin'', ''run'', ''spark'', ''-o:speed'']
   \<and> main (fixed_os [] (exits_with 0 0)) [''build.py'', ''release''] () =
       Done \<lparr>world = (), calls = [ListDir ''shaders'',
         Run [''odin'', ''run'', ''spark'', ''-o:speed''] None None]\<rparr>
   \<and> last [ListDir ''shaders'', Run [''odin'', ''run'', ''spark'', ''-o:speed''] None None] =
       Run (odin_cmd [''build.py'', ''release'']) None None"
  using flags_from_first_argument [of "''build.py''" "[''release'']" "''debug''" "''build.py''" "[]"
      "fixed_os [] (exits_with 0 0)" "[''build.py'', ''release'']" "()"
      "\<lparr>world = (), calls = [ListDir ''shaders'',
         Run [''odin'', ''run'', ''spark'', ''-o:speed''] None None]\<rparr>"]
    flags_from_first_argument [of "''build.py''" "[''x'']" "''release''" "''build.py''" "[]"
      "fixed_os [] (exits_with 0 0)" "[''build.py'', ''release'']" "()"
      "\<lparr>world = (), calls = [ListDir ''shaders'',
         Run [''odin'', ''run'', ''spark'', ''-o:speed''] None None]\<rparr>"]
  by (simp add: run_defs)

section \<open>The order of the calls\<close>

text \<open>
  Claim C4, for the runs in which the directory can be listed and every process that the
  run starts can be started: the run reaches its end, and its calls are the listing,
  first and once, then one compiler process for each eligible entry in the order of the
  listing, then the runner, last and once, whatever the return codes are. A call is made
  when the call before it has returned: \<open>subprocess.run\<close> waits for the process to
  terminate, and each process is started in the world its predecessor left behind. When
  the listing raises, or the first process that cannot be started raises, nothing
  catches the exception and the run ends there: its calls are the listing and the
  commands up to and including the one that could not be started.
\<close>

theorem calls_in_order:
  "(listdir env ''shaders'' w = (Inl e, w') \<longrightarrow>
      main env argv w = Uncaught e \<lparr>world = w', calls = [ListDir ''shaders'']\<rparr>)
   \<and> (listdir env ''shaders'' w = (Inr content, w') \<and>
      start_all env (commands content argv) w' = Some w1 \<longrightarrow>
      main env argv w =
      Done \<lparr>world = w1, calls = ListDir ''shaders'' #
        map (\<lambda>entry. Run (shader_cmd entry) None None) (filter eligible content) @
        [Run (odin_cmd argv) None None]\<rparr>)
   \<and> (listdir env ''shaders'' w = (Inr content, w') \<and>
      commands content argv = pre @ cmd # post \<and>
      start_all env pre w' = Some w2 \<and>
      subprocess_run env cmd None None w2 = (Inl e, w3) \<longrightarrow>
      main env argv w =
      Uncaught e \<lparr>world = w3, calls = ListDir ''shaders'' #
        map (\<lambda>c. Run c None None) (pre @ [cmd])\<rparr>)"
proof (intro conjI impI)
  assume "listdir env ''shaders'' w = (Inl e, w')"
  then show "main env argv w = Uncaught e \<lparr>world = w', calls = [ListDir ''shaders'']\<rparr>"
    by (simp add: main_def)
next
  assume "listdir env ''shaders'' w = (Inr content, w') \<and>
      start_all env (commands content argv) w' = Some w1"
  then show "main env argv w =
      Done \<lparr>world = w1, calls = ListDir ''shaders'' #
        map (\<lambda>entry. Run (shader_cmd entry) None None) (filter eligible content) @
        [Run (odin_cmd argv) None None]\<rparr>"
    using main_started [of env w content w' argv w1] by (simp add: plan_def)
next
  assume "listdir env ''shaders'' w = (Inr content, w') \<and>
      commands content argv = pre @ cmd # post \<and>
      start_all env pre w' = Some w2 \<and>
      subprocess_run env cmd None None w2 = (Inl e, w3)"
  then show "main env argv w =
      Uncaught e \<lparr>world = w3, calls = ListDir ''shaders'' #
        map (\<lambda>c. Run c None None) (pre @ [cmd])\<rparr>"
    using main_first_failure [of env w content w' argv pre cmd post w2 e w3] by simp
qed

theorem calls_in_order_witness:
  "listdir no_directory ''shaders'' () = (Inl FileNotFoundError, ())
   \<and> main no_directory [''build.py''] () =
       Uncaught FileNotFoundError \<lparr>world = (), calls = [ListDir ''shaders'']\<rparr>
   \<and> listdir (fixed_os [''tri.vert.glsl'', ''readme.txt'', ''tri.frag.glsl'']
        (installed [(''glslangValidator'', 1), (''odin'', 0)])) ''shaders'' () =
       (Inr [''tri.vert.glsl'', ''readme.txt'', ''tri.frag.glsl''], ())
   \<and> start_all (fixed_os [''tri.vert.glsl'', ''readme.txt'', ''tri.frag.glsl'']
        (installed [(''glslangValidator'', 1), (''odin'', 0)]))
       (commands [''tri.vert.glsl'', ''readme.txt'', ''tri.frag.glsl''] [''build.py'']) () = Some ()
   \<and> main (fixed_os [''tri.vert.glsl'', ''readme.txt'', ''tri.frag.glsl'']
        (installed [(''glslangValidator'', 1), (''odin'', 0)])) [''build.py''] () =
       Done \<lparr>world = (), calls = [ListDir ''shaders'',
         Run [''glslangValidator'', ''-V'', ''shaders/tri.vert.glsl'', ''-o'',
              ''shaders/bin/tri.vert.spv''] None None,
         Run [''glslangValidator'', ''-V'', ''shaders/tri.frag.glsl'', ''-o'',
              ''shaders/bin/tri.frag.spv''] None None,
         Run [''odin'', ''run'', ''spark'', ''-o:none'', ''-debug''] None None]\<rparr>
   \<and> listdir (fixed_os [''tri.vert.glsl'', ''tri.frag.glsl''] (installed [(''glslangValidator'', 0)]))
       ''shaders'' () = (Inr [''tri.vert.glsl'', ''tri.frag.glsl''], ())
   \<and> commands [''tri.vert.glsl'', ''tri.frag.glsl''] [''build.py''] =
       [shader_cmd ''tri.vert.glsl'', shader_cmd ''tri.frag.glsl''] @ odin_cmd [''build.py''] # []
   \<and> start_all (fixed_os [''tri.vert.glsl'', ''tri.frag.glsl''] (installed [(''glslangValidator'', 0)]))
       [shader_cmd ''tri.vert.glsl'', shader_cmd ''tri.frag.glsl''] () = Some ()
   \<and> subprocess_run (fixed_os [''tri.vert.glsl'', ''tri.frag.glsl'']
        (installed [(''glslangValidator'', 0)])) (odin_cmd [''build.py'']) None None () =
       (Inl FileNotFoundError, ())
   \<and> main (fixed_os [''tri.vert.glsl'', ''tri.frag.glsl''] (installed [(''glslangValidator'', 0)]))
       [''build.py''] () =
       Uncaught FileNotFoundError \<lparr>world = (), calls = [ListDir ''shaders'',
         Run [''glslangValidator'', ''-V'', ''shaders/tri.vert.glsl'', ''-o'',
              ''shaders/bin/tri.vert.spv''] None None,
         Run [''glslangValidator'', ''-V'', ''shaders/tri.frag.glsl'', ''-o'',
              ''shaders/bin/tri.frag.spv''] None None,
         Run [''odin'', ''run'', ''spark'', ''-o:none'', ''-debug''] None None]\<rparr>"
  using calls_in_order
      [of no_directory "()" FileNotFoundError "()" "[''build.py'']" "[]" "()" "[]" "[]" "[]" "()" "()"]
    calls_in_order
      [of "fixed_os [''tri.vert.glsl'', ''readme.txt'', ''tri.frag.glsl'']
            (installed [(''glslangValidator'', 1), (''odin'', 0)])" "()" FileNotFoundError "()"
        "[''build.py'']" "[''tri.vert.glsl'', ''readme.txt'', ''tri.frag.glsl'']" "()"
        "[]" "[]" "[]" "()" "()"]
    calls_in_order
      [of "fixed_os [''tri.vert.glsl'', ''tri.frag.glsl''] (installed [(''glslangValidator'', 0)])"
        "()" FileNotFoundError "()" "[''build.py'']" "[''tri.vert.glsl'', ''tri.frag.glsl'']" "()"
        "[shader_cmd ''tri.vert.glsl'', shader_cmd ''tri.frag.glsl'']" "odin_cmd [''build.py'']"
        "[]" "()" "()"]
  by (simp add: run_defs2)

text \<open>
  Without that condition the sequence of claim C4 is not what every run does. A compiler
  that cannot be started is one way for a compilation to fail: \<open>subprocess.run\<close>
  raises, the script catches nothing, and the run ends at that call. With
  \<open>glslangValidator\<close> missing and two eligible entries there is one compiler call and no
  runner call.
\<close>

theorem runner_not_reached_counterexample:
  "main (fixed_os [''tri.vert.glsl'', ''tri.frag.glsl''] (compiler_missing 0)) [''build.py''] () =
     Uncaught FileNotFoundError \<lparr>world = (), calls = [ListDir ''shaders'',
       Run [''glslangValidator'', ''-V'', ''shaders/tri.vert.glsl'', ''-o'',
            ''shaders/bin/tri.vert.spv''] None None]\<rparr>
   \<and> Run (odin_cmd [''build.py'']) None None \<notin>
       set (calls (final_state
         (main (fixed_os [''tri.vert.glsl'', ''tri.frag.glsl''] (compiler_missing 0)) [''build.py''] ())))
   \<and> calls (final_state
         (main (fixed_os [''tri.vert.glsl'', ''tri.frag.glsl''] (compiler_missing 0)) [''build.py''] ()))
       \<noteq> plan [''tri.vert.glsl'', ''tri.frag.glsl''] [''build.py'']"
  by (simp add: run_defs plan_def)

section \<open>Failures of the external tools\<close>

text \<open>
  Claim C5, with the two kinds of failure told apart. A compiler that is started and
  returns, with a return code that is zero or not, is not looked at: the loop goes on
  with the next entry in the world the compiler left behind, and when every compiler
  process can be started the run makes a compiler call for every eligible entry and
  then the runner call. A compiler that cannot be started makes \<open>subprocess.run\<close>
  raise; nothing catches the exception, so the loop and the script end at that call:
  no later entry is compiled, the runner is not started, and the exit status is 1.
\<close>

theorem return_code_ignored_start_failure_ends_run:
  "(eligible entry \<and> subprocess_run env (shader_cmd entry) None None (world s) = (Inr rc, w1) \<longrightarrow>
      for_entries env (entry # rest) s =
      for_entries env rest \<lparr>world = w1, calls = calls s @ [Run (shader_cmd entry) None None]\<rparr>)
   \<and> (listdir env ''shaders'' w = (Inr content, w') \<and>
      start_all env (map shader_cmd (filter eligible content)) w' = Some w2 \<longrightarrow>
      calls (final_state (main env argv w)) =
        ListDir ''shaders'' #
        map (\<lambda>x. Run (shader_cmd x) None None) (filter eligible content) @
        [Run (odin_cmd argv) None None])
   \<and> (eligible entry \<and> subprocess_run env (shader_cmd entry) None None (world s) = (Inl e, w1) \<longrightarrow>
      for_entries env (entry # rest) s =
      Uncaught e \<lparr>world = w1, calls = calls s @ [Run (shader_cmd entry) None None]\<rparr>)
   \<and> (listdir env ''shaders'' w = (Inr (before @ entry # after), w') \<and> eligible entry \<and>
      start_all env (map shader_cmd (filter eligible before)) w' = Some w3 \<and>
      subprocess_run env (shader_cmd entry) None None w3 = (Inl e, w4) \<longrightarrow>
      main env argv w =
        Uncaught e \<lparr>world = w4, calls = ListDir ''shaders'' #
          map (\<lambda>x. Run (shader_cmd x) None None) (filter eligible before) @
          [Run (shader_cmd entry) None None]\<rparr> \<and>
      exit_status (main env argv w) = 1)"
proof (intro conjI impI)
  assume "eligible entry \<and>
    subprocess_run env (shader_cmd entry) None None (world s) = (Inr rc, w1)"
  then show "for_entries env (entry # rest) s =
      for_entries env rest \<lparr>world = w1, calls = calls s @ [Run (shader_cmd entry) None None]\<rparr>"
    by (simp add: loop_body_eligible run_cmd_def)
next
  assume "listdir env ''shaders'' w = (Inr content, w') \<and>
      start_all env (map shader_cmd (filter eligible content)) w' = Some w2"
  then show "calls (final_state (main env argv w)) =
        ListDir ''shaders'' #
        map (\<lambda>x. Run (shader_cmd x) None None) (filter eligible content) @
        [Run (odin_cmd argv) None None]"
    using main_compilers_started [of env w content w' w2 argv] by (simp add: plan_def)
next
  assume "eligible entry \<and>
    subprocess_run env (shader_cmd entry) None None (world s) = (Inl e, w1)"
  then show "for_entries env (entry # rest) s =
      Uncaught e \<lparr>world = w1, calls = calls s @ [Run (shader_cmd entry) None None]\<rparr>"
    by (simp add: loop_body_eligible run_cmd_def)
next
  assume a: "listdir env ''shaders'' w = (Inr (before @ entry # after), w') \<and> eligible entry \<and>
      start_all env (map shader_cmd (filter eligible before)) w' = Some w3 \<and>
      subprocess_run env (shader_cmd entry) None None w3 = (Inl e, w4)"
  have "commands (before @ entry # after) argv =
      map shader_cmd (filter eligible before) @ shader_cmd entry #
      (map shader_cmd (filter eligible after) @ [odin_cmd argv])"
    using a by (simp add: commands_def)
  then have m: "main env argv w =
      Uncaught e \<lparr>world = w4, calls = ListDir ''shaders'' #
        map (\<lambda>c. Run c None None) (map shader_cmd (filter eligible before) @ [shader_cmd entry])\<rparr>"
    using a main_first_failure [of env w "before @ entry # after" w' argv
        "map shader_cmd (filter eligible before)" "shader_cmd entry"
        "map shader_cmd (filter eligible after) @ [odin_cmd argv]" w3 e w4]
    by simp
  then show "main env argv w =
        Uncaught e \<lparr>world = w4, calls = ListDir ''shaders'' #
          map (\<lambda>x. Run (shader_cmd x) None None) (filter eligible before) @
          [Run (shader_cmd entry) None None]\<rparr>"
    by (simp add: comp_def)
  show "exit_status (main env argv w) = 1"
    using m by simp
qed

theorem return_code_ignored_start_failure_ends_run_witness:
  "eligible ''a.vert.glsl''
   \<and> subprocess_run (fixed_os [''a.vert.glsl'', ''b.frag.glsl''] (exits_with 1 0))
       (shader_cmd ''a.vert.glsl'') None None () = (Inr 1, ())
   \<and> for_entries (fixed_os [''a.vert.glsl'', ''b.frag.glsl''] (exits_with 1 0))
       [''a.vert.glsl'', ''b.frag.glsl''] \<lparr>world = (), calls = []\<rparr> =
     for_entries (fixed_os [''a.vert.glsl'', ''b.frag.glsl''] (exits_with 1 0))
       [''b.frag.glsl''] \<lparr>world = (), calls = [Run (shader_cmd ''a.vert.glsl'') None None]\<rparr>
   \<and> listdir (fixed_os [''a.vert.glsl'', ''b.frag.glsl''] (exits_with 1 0)) ''shaders'' () =
       (Inr [''a.vert.glsl'', ''b.frag.glsl''], ())
   \<and> start_all (fixed_os [''a.vert.glsl'', ''b.frag.glsl''] (exits_with 1 0))
       (map shader_cmd (filter eligible [''a.vert.glsl'', ''b.frag.glsl''])) () = Some ()
   \<and> calls (final_state
       (main (fixed_os [''a.vert.glsl'', ''b.frag.glsl''] (exits_with 1 0)) [''build.py''] ())) =
       [ListDir ''shaders'',
         Run [''glslangValidator'', ''-V'', ''shaders/a.vert.glsl'', ''-o'',
              ''shaders/bin/a.vert.spv''] None None,
         Run [''glslangValidator'', ''-V'', ''shaders/b.frag.glsl'', ''-o'',
              ''shaders/bin/b.frag.spv''] None None,
         Run [''odin'', ''run'', ''spark'', ''-o:none'', ''-debug''] None None]
   \<and> subprocess_run (fixed_os [''a.vert.glsl'', ''b.frag.glsl''] (compiler_missing 0))
       (shader_cmd ''a.vert.glsl'') None None () = (Inl FileNotFoundError, ())
   \<and> for_entries (fixed_os [''a.vert.glsl'', ''b.frag.glsl''] (compiler_missing 0))
       [''a.vert.glsl'', ''b.frag.glsl''] \<lparr>world = (), calls = []\<rparr> =
     Uncaught FileNotFoundError
       \<lparr>world = (), calls = [Run (shader_cmd ''a.vert.glsl'') None None]\<rparr>
   \<and> listdir (fixed_os [''a.vert.glsl'', ''b.frag.glsl''] (compiler_missing 0)) ''shaders'' () =
       (Inr ([] @ ''a.vert.glsl'' # [''b.frag.glsl'']), ())
   \<and> start_all (fixed_os [''a.vert.glsl'', ''b.frag.glsl''] (compiler_missing 0))
       (map shader_cmd (filter eligible [])) () = Some ()
   \<and> main (fixed_os [''a.vert.glsl'', ''b.frag.glsl''] (compiler_missing 0)) [''build.py''] () =
       Uncaught FileNotFoundError \<lparr>world = (), calls = [ListDir ''shaders'',
         Run [''glslangValidator'', ''-V'', ''shaders/a.vert.glsl'', ''-o'',
              ''shaders/bin/a.vert.spv''] None None]\<rparr>
   \<and> exit_status
       (main (fixed_os [''a.vert.glsl'', ''b.frag.glsl''] (compiler_missing 0)) [''build.py''] ()) = 1"
  using return_code_ignored_start_failure_ends_run
      [of "''a.vert.glsl''" "fixed_os [''a.vert.glsl'', ''b.frag.glsl''] (exits_with 1 0)"
        "\<lparr>world = (), calls = []\<rparr>" 1 "()" "[''b.frag.glsl'']" "()"
        "[''a.vert.glsl'', ''b.frag.glsl'']" "()" "()" "[''build.py'']" FileNotFoundError
        "[]" "[]" "()" "()"]
    return_code_ignored_start_failure_ends_run
      [of "''a.vert.glsl''" "fixed_os [''a.vert.glsl'', ''b.frag.glsl''] (compiler_missing 0)"
        "\<lparr>world = (), calls = []\<rparr>" 1 "()" "[''b.frag.glsl'']" "()"
        "[''a.vert.glsl'', ''b.frag.glsl'']" "()" "()" "[''build.py'']" FileNotFoundError
        "[]" "[''b.frag.glsl'']" "()" "()"]
  by (simp add: run_defs2)

text \<open>
  A missing tool, which claim C5 counts among the failures that are passed over, is not
  passed over: the exception of \<open>subprocess.run\<close> ends the loop body, the loop and the
  script; the next shader is not compiled, the runner is not started, and the
  interpreter exits with status 1.
\<close>

theorem missing_compiler_aborts_counterexample:
  "loop_body (fixed_os [''a.vert.glsl'', ''b.frag.glsl''] (compiler_missing 0)) ''a.vert.glsl''
      \<lparr>world = (), calls = [ListDir ''shaders'']\<rparr> =
     Uncaught FileNotFoundError \<lparr>world = (), calls = [ListDir ''shaders'',
       Run [''glslangValidator'', ''-V'', ''shaders/a.vert.glsl'', ''-o'',
            ''shaders/bin/a.vert.spv''] None None]\<rparr>
   \<and> exit_status
        (main (fixed_os [''a.vert.glsl'', ''b.frag.glsl''] (compiler_missing 0))
          [''build.py'', ''release''] ()) = 1
   \<and> Run (shader_cmd ''b.frag.glsl'') None None \<notin>
       set (calls (final_state
         (main (fixed_os [''a.vert.glsl'', ''b.frag.glsl''] (compiler_missing 0))
           [''build.py'', ''release''] ())))
   \<and> Run (odin_cmd [''build.py'', ''release'']) None None \<notin>
       set (calls (final_state
         (main (fixed_os [''a.vert.glsl'', ''b.frag.glsl''] (compiler_missing 0))
           [''build.py'', ''release''] ())))"
  by (simp add: run_defs)

section \<open>The exit status of the driver\<close>

text \<open>
  Claim C6, as the script has it: the exit code is not managed and is no return code of
  an external process. It is 0 when the directory can be listed and every process that
  the run starts can be started, whatever the compilers and the runner return, and 1
  when the listing or the start of a process raises. So it reflects neither a
  compilation nor a run that failed with a return code.
\<close>

theorem exit_status_from_starts_alone:
  "(listdir env ''shaders'' w = (Inr content, w') \<and>
      start_all env (commands content argv) w' = Some w1 \<longrightarrow>
      exit_status (main env argv w) = 0)
   \<and> (listdir env ''shaders'' w = (Inr content, w') \<and>
      start_all env (commands content argv) w' = None \<longrightarrow>
      exit_status (main env argv w) = 1)
   \<and> (listdir env ''shaders'' w = (Inl e, w') \<longrightarrow> exit_status (main env argv w) = 1)"
proof (intro conjI impI)
  assume "listdir env ''shaders'' w = (Inr content, w') \<and>
      start_all env (commands content argv) w' = Some w1"
  then show "exit_status (main env argv w) = 0"
    using main_started [of env w content w' argv w1] by simp
next
  assume "listdir env ''shaders'' w = (Inr content, w') \<and>
      start_all env (commands content argv) w' = None"
  then obtain e' s where "main env argv w = Uncaught e' s"
    using main_not_started [of env w content w' argv] by blast
  then show "exit_status (main env argv w) = 1" by simp
next
  assume "listdir env ''shaders'' w = (Inl e, w')"
  then show "exit_status (main env argv w) = 1"
    by (simp add: main_def)
qed

theorem exit_status_from_starts_alone_witness:
  "listdir (fixed_os [''a.vert.glsl''] (installed [(''glslangValidator'', 1), (''odin'', 3)]))
       ''shaders'' () = (Inr [''a.vert.glsl''], ())
   \<and> start_all (fixed_os [''a.vert.glsl''] (installed [(''glslangValidator'', 1), (''odin'', 3)]))
       (commands [''a.vert.glsl''] [''build.py'']) () = Some ()
   \<and> subprocess_run (fixed_os [''a.vert.glsl''] (installed [(''glslangValidator'', 1), (''odin'', 3)]))
       (shader_cmd ''a.vert.glsl'') None None () = (Inr 1, ())
   \<and> subprocess_run (fixed_os [''a.vert.glsl''] (installed [(''glslangValidator'', 1), (''odin'', 3)]))
       (odin_cmd [''build.py'']) None None () = (Inr 3, ())
   \<and> exit_status
       (main (fixed_os [''a.vert.glsl''] (installed [(''glslangValidator'', 1), (''odin'', 3)]))
         [''build.py''] ()) = 0
   \<and> listdir (fixed_os [''a.vert.glsl''] (installed [(''glslangValidator'', 0)]))
       ''shaders'' () = (Inr [''a.vert.glsl''], ())
   \<and> start_all (fixed_os [''a.vert.glsl''] (installed [(''glslangValidator'', 0)]))
       (commands [''a.vert.glsl''] [''build.py'']) () = None
   \<and> exit_status
       (main (fixed_os [''a.vert.glsl''] (installed [(''glslangValidator'', 0)])) [''build.py''] ()) = 1
   \<and> listdir no_directory ''shaders'' () = (Inl FileNotFoundError, ())
   \<and> exit_status (main no_directory [''build.py''] ()) = 1"
  using exit_status_from_starts_alone
      [of "fixed_os [''a.vert.glsl''] (installed [(''glslangValidator'', 1), (''odin'', 3)])" "()"
        "[''a.vert.glsl'']" "()" "[''build.py'']" "()" FileNotFoundError]
    exit_status_from_starts_alone
      [of "fixed_os [''a.vert.glsl''] (installed [(''glslangValidator'', 0)])" "()"
        "[''a.vert.glsl'']" "()" "[''build.py'']" "()" FileNotFoundError]
    exit_status_from_starts_alone
      [of no_directory "()" "[]" "()" "[''build.py'']" "()" FileNotFoundError]
  by (simp add: run_defs2)

text \<open>
  The exit code is not the one of the last external process, as claim C6 has it. The
  return code of the runner stays in a local variable of \<open>run_cmd\<close>; the script runs
  to its end and the interpreter exits with 0. Here the runner returns 3.
\<close>

theorem exit_status_not_runner_code_counterexample:
  "subprocess_run (fixed_os [] (exits_with 0 3)) (odin_cmd [''build.py'']) None None () = (Inr 3, ())
   \<and> exit_status (main (fixed_os [] (exits_with 0 3)) [''build.py''] ()) = 0
   \<and> exit_status (main (fixed_os [] (exits_with 0 3)) [''build.py''] ()) \<noteq> 3"
  by (simp add: run_defs)

section \<open>The shape of a compiler call\<close>

text \<open>
  Claim C7. Every call of a run is the listing of \<open>shaders\<close>, the runner, or
  \<open>glslangValidator -V input -o output\<close> for an eligible entry of the listing, where
  \<open>input\<close> is \<open>os.path.join("shaders", entry)\<close>, that is \<open>shaders/entry\<close>, and \<open>output\<close> is
  the derived output path. Both streams of the process are left as they are
  (\<open>stdout=None, stderr=None\<close>), so no output is captured, and \<open>run_cmd\<close> completes in
  the same way for every return code.
\<close>

theorem compiler_invocation_shape:
  "(listdir env ''shaders'' w = (Inr content, w') \<and>
    ev \<in> set (calls (final_state (main env argv w))) \<longrightarrow>
      ev = ListDir ''shaders'' \<or> ev = Run (odin_cmd argv) None None \<or>
      (\<exists>entry \<in> set content. eligible entry \<and>
         ev = Run [''glslangValidator'', ''-V'', os_path_join ''shaders'' [entry], ''-o'',
                   shader_name entry] None None))
   \<and> (CHR ''/'' \<notin> set entry \<longrightarrow> os_path_join ''shaders'' [entry] = ''shaders/'' @ entry)
   \<and> (subprocess_run env cmd None None (world s) = (Inr rc, w1) \<longrightarrow>
        run_cmd env cmd s = Done \<lparr>world = w1, calls = calls s @ [Run cmd None None]\<rparr>)"
proof (intro conjI impI)
  assume "listdir env ''shaders'' w = (Inr content, w') \<and>
    ev \<in> set (calls (final_state (main env argv w)))"
  then show "ev = ListDir ''shaders'' \<or> ev = Run (odin_cmd argv) None None \<or>
      (\<exists>entry \<in> set content. eligible entry \<and>
         ev = Run [''glslangValidator'', ''-V'', os_path_join ''shaders'' [entry], ''-o'',
                   shader_name entry] None None)"
    using main_calls [of env w content w' ev argv] by (simp add: shader_cmd_def)
next
  assume "CHR ''/'' \<notin> set entry"
  then show "os_path_join ''shaders'' [entry] = ''shaders/'' @ entry"
    using os_path_join_shaders [OF no_slash_take] by simp
next
  assume "subprocess_run env cmd None None (world s) = (Inr rc, w1)"
  then show "run_cmd env cmd s = Done \<lparr>world = w1, calls = calls s @ [Run cmd None None]\<rparr>"
    by (simp add: run_cmd_def)
qed

theorem compiler_invocation_shape_witness:
  "listdir (fixed_os [''tri.vert.glsl'', ''notes''] (exits_with 2 0)) ''shaders'' () =
     (Inr [''tri.vert.glsl'', ''notes''], ())
   \<and> Run [''glslangValidator'', ''-V'', ''shaders/tri.vert.glsl'', ''-o'',
          ''shaders/bin/tri.vert.spv''] None None
       \<in> set (calls (final_state
           (main (fixed_os [''tri.vert.glsl'', ''notes''] (exits_with 2 0)) [''build.py''] ())))
   \<and> eligible ''tri.vert.glsl''
   \<and> os_path_join ''shaders'' [''tri.vert.glsl''] = ''shaders/tri.vert.glsl''
   \<and> shader_name ''tri.vert.glsl'' = ''shaders/bin/tri.vert.spv''
   \<and> CHR ''/'' \<notin> set ''tri.vert.glsl''
   \<and> subprocess_run (fixed_os [''tri.vert.glsl'', ''notes''] (exits_with 2 0))
       (shader_cmd ''tri.vert.glsl'') None None () = (Inr 2, ())
   \<and> run_cmd (fixed_os [''tri.vert.glsl'', ''notes''] (exits_with 2 0))
       (shader_cmd ''tri.vert.glsl'') \<lparr>world = (), calls = []\<rparr> =
     Done \<lparr>world = (), calls = [Run (shader_cmd ''tri.vert.glsl'') None None]\<rparr>"
  using compiler_invocation_shape
    [of "fixed_os [''tri.vert.glsl'', ''notes''] (exits_with 2 0)" "()"
      "[''tri.vert.glsl'', ''notes'']" "()"
      "Run [''glslangValidator'', ''-V'', ''shaders/tri.vert.glsl'', ''-o'',
          ''shaders/bin/tri.vert.spv''] None None" "[''build.py'']" "''tri.vert.glsl''"
      "shader_cmd ''tri.vert.glsl''" "\<lparr>world = (), calls = []\<rparr>" 2 "()"]
  by (simp add: run_defs eligible_def)

section \<open>An empty directory\<close>

text \<open>
  Claim C8. When the listing is empty, the calls of the run are the listing and one
  runner call, with no compiler call; without a mode argument the runner call carries
  \<open>-o:none -debug\<close>.
\<close>

theorem empty_listing_runs_only_runner:
  assumes "listdir env ''shaders'' w = (Inr [], w')"
  shows "calls (final_state (main env argv w)) =
      [ListDir ''shaders'', Run (odin_cmd argv) None None]
    \<and> (length argv \<le> 1 \<longrightarrow>
        calls (final_state (main env argv w)) =
        [ListDir ''shaders'', Run [''odin'', ''run'', ''spark'', ''-o:none'', ''-debug''] None None])"
proof -
  have "calls (final_state (main env argv w)) =
      [ListDir ''shaders'', Run (odin_cmd argv) None None]"
    using assms by (simp add: main_def calls_run_cmd)
  moreover have "length argv \<le> 1 \<Longrightarrow>
      odin_cmd argv = [''odin'', ''run'', ''spark'', ''-o:none'', ''-debug'']"
    by (simp add: odin_cmd_def)
  ultimately show ?thesis by simp
qed

theorem empty_listing_runs_only_runner_witness:
  "listdir (fixed_os [] (exits_with 0 0)) ''shaders'' () = (Inr [], ())
   \<and> length [''build.py''] \<le> 1
   \<and> calls (final_state (main (fixed_os [] (exits_with 0 0)) [''build.py''] ())) =
       [ListDir ''shaders'', Run [''odin'', ''run'', ''spark'', ''-o:none'', ''-debug''] None None]"
  using empty_listing_runs_only_runner [of "fixed_os [] (exits_with 0 0)" "()" "()" "[''build.py'']"]
  by (simp add: run_defs)

section \<open>Two runs on the same inputs\<close>

text \<open>
  Claim C9, for runs that reach their end. Take two runs with the same arguments, in any
  two environments and worlds in which the directory can be listed; the return codes of
  the tools may differ from run to run. When every process that each run starts can be
  started and the listings hold the same names, in the same or in another order, both
  runs reach their end, the compiler calls (the calls between the listing and the
  runner) are the same multiset, and the runner call is the same; with the same listing
  the calls are the same list. Without the condition on the processes, and with the
  same listing, the calls of one run are a prefix of the calls of the other: the runs
  agree up to the call at which one of them ends.
\<close>

theorem same_inputs_same_invocations:
  assumes "listdir env1 ''shaders'' w1 = (Inr content1, w1')"
    and "listdir env2 ''shaders'' w2 = (Inr content2, w2')"
  shows "(content1 = content2 \<longrightarrow>
       prefix (calls (final_state (main env1 argv w1))) (calls (final_state (main env2 argv w2))) \<or>
       prefix (calls (final_state (main env2 argv w2))) (calls (final_state (main env1 argv w1))))
    \<and> (mset content1 = mset content2 \<and>
       start_all env1 (commands content1 argv) w1' = Some v1 \<and>
       start_all env2 (commands content2 argv) w2' = Some v2 \<longrightarrow>
       (\<exists>s1 s2. main env1 argv w1 = Done s1 \<and> main env2 argv w2 = Done s2 \<and>
          butlast (tl (calls s1)) =
            map (\<lambda>entry. Run (shader_cmd entry) None None) (filter eligible content1) \<and>
          butlast (tl (calls s2)) =
            map (\<lambda>entry. Run (shader_cmd entry) None None) (filter eligible content2) \<and>
          mset (butlast (tl (calls s1))) = mset (butlast (tl (calls s2))) \<and>
          last (calls s1) = Run (odin_cmd argv) None None \<and>
          last (calls s2) = Run (odin_cmd argv) None None \<and>
          (content1 = content2 \<longrightarrow> calls s1 = calls s2)))"
proof (rule conjI; rule impI)
  assume "content1 = content2"
  then have "prefix (calls (final_state (main env1 argv w1))) (plan content1 argv)"
    and "prefix (calls (final_state (main env2 argv w2))) (plan content1 argv)"
    using main_calls_prefix [OF assms(1), of argv] main_calls_prefix [OF assms(2), of argv]
    by simp_all
  then show "prefix (calls (final_state (main env1 argv w1)))
        (calls (final_state (main env2 argv w2))) \<or>
      prefix (calls (final_state (main env2 argv w2))) (calls (final_state (main env1 argv w1)))"
    by (rule prefix_same_cases)
next
  assume a: "mset content1 = mset content2 \<and>
       start_all env1 (commands content1 argv) w1' = Some v1 \<and>
       start_all env2 (commands content2 argv) w2' = Some v2"
  let ?s1 = "\<lparr>world = v1, calls = plan content1 argv\<rparr>"
  let ?s2 = "\<lparr>world = v2, calls = plan content2 argv\<rparr>"
  have d1: "main env1 argv w1 = Done ?s1"
    using main_started [OF assms(1), of argv v1] a by simp
  have d2: "main env2 argv w2 = Done ?s2"
    using main_started [OF assms(2), of argv v2] a by simp
  have "mset (filter eligible content1) = mset (filter eligible content2)"
    using a by (metis mset_filter)
  then have m: "mset (map (\<lambda>entry. Run (shader_cmd entry) None None) (filter eligible content1)) =
      mset (map (\<lambda>entry. Run (shader_cmd entry) None None) (filter eligible content2))"
    by (metis mset_map)
  have "butlast (tl (calls ?s1)) =
        map (\<lambda>entry. Run (shader_cmd entry) None None) (filter eligible content1) \<and>
      butlast (tl (calls ?s2)) =
        map (\<lambda>entry. Run (shader_cmd entry) None None) (filter eligible content2) \<and>
      mset (butlast (tl (calls ?s1))) = mset (butlast (tl (calls ?s2))) \<and>
      last (calls ?s1) = Run (odin_cmd argv) None None \<and>
      last (calls ?s2) = Run (odin_cmd argv) None None \<and>
      (content1 = content2 \<longrightarrow> calls ?s1 = calls ?s2)"
    using m by (simp add: plan_def butlast_append)
  with d1 d2 show "\<exists>s1 s2. main env1 argv w1 = Done s1 \<and> main env2 argv w2 = Done s2 \<and>
          butlast (tl (calls s1)) =
            map (\<lambda>entry. Run (shader_cmd entry) None None) (filter eligible content1) \<and>
          butlast (tl (calls s2)) =
            map (\<lambda>entry. Run (shader_cmd entry) None None) (filter eligible content2) \<and>
          mset (butlast (tl (calls s1))) = mset (butlast (tl (calls s2))) \<and>
          last (calls s1) = Run (odin_cmd argv) None None \<and>
          last (calls s2) = Run (odin_cmd argv) None None \<and>
          (content1 = content2 \<longrightarrow> calls s1 = calls s2)"
    by blast
qed

theorem same_inputs_same_invocations_witness:
  "listdir (fixed_os [''a.vert.glsl'', ''b.frag.glsl''] (exits_with 0 0)) ''shaders'' () =
     (Inr [''a.vert.glsl'', ''b.frag.glsl''], ())
   \<and> listdir (fixed_os [''b.frag.glsl'', ''a.vert.glsl''] (exits_with 1 2)) ''shaders'' () =
     (Inr [''b.frag.glsl'', ''a.vert.glsl''], ())
   \<and> mset [''a.vert.glsl'', ''b.frag.glsl''] = mset [''b.frag.glsl'', ''a.vert.glsl'']
   \<and> start_all (fixed_os [''a.vert.glsl'', ''b.frag.glsl''] (exits_with 0 0))
       (commands [''a.vert.glsl'', ''b.frag.glsl''] [''build.py'']) () = Some ()
   \<and> start_all (fixed_os [''b.frag.glsl'', ''a.vert.glsl''] (exits_with 1 2))
       (commands [''b.frag.glsl'', ''a.vert.glsl''] [''build.py'']) () = Some ()
   \<and> main (fixed_os [''a.vert.glsl'', ''b.frag.glsl''] (exits_with 0 0)) [''build.py''] () =
       Done \<lparr>world = (), calls = [ListDir ''shaders'',
         Run [''glslangValidator'', ''-V'', ''shaders/a.vert.glsl'', ''-o'',
              ''shaders/bin/a.vert.spv''] None None,
         Run [''glslangValidator'', ''-V'', ''shaders/b.frag.glsl'', ''-o'',
              ''shaders/bin/b.frag.spv''] None None,
         Run [''odin'', ''run'', ''spark'', ''-o:none'', ''-debug''] None None]\<rparr>
   \<and> main (fixed_os [''b.frag.glsl'', ''a.vert.glsl''] (exits_with 1 2)) [''build.py''] () =
       Done \<lparr>world = (), calls = [ListDir ''shaders'',
         Run [''glslangValidator'', ''-V'', ''shaders/b.frag.glsl'', ''-o'',
              ''shaders/bin/b.frag.spv''] None None,
         Run [''glslangValidator'', ''-V'', ''shaders/a.vert.glsl'', ''-o'',
              ''shaders/bin/a.vert.spv''] None None,
         Run [''odin'', ''run'', ''spark'', ''-o:none'', ''-debug''] None None]\<rparr>
   \<and> mset [Run [''glslangValidator'', ''-V'', ''shaders/a.vert.glsl'', ''-o'',
              ''shaders/bin/a.vert.spv''] None None,
         Run [''glslangValidator'', ''-V'', ''shaders/b.frag.glsl'', ''-o'',
              ''shaders/bin/b.frag.spv''] None None] =
       mset [Run [''glslangValidator'', ''-V'', ''shaders/b.frag.glsl'', ''-o'',
              ''shaders/bin/b.frag.spv''] None None,
         Run [''glslangValidator'', ''-V'', ''shaders/a.vert.glsl'', ''-o'',
              ''shaders/bin/a.vert.spv''] None None]
   \<and> listdir (fixed_os [''a.vert.glsl'', ''b.frag.glsl''] (compiler_missing 0)) ''shaders'' () =
     (Inr [''a.vert.glsl'', ''b.frag.glsl''], ())
   \<and> prefix
       (calls (final_state
         (main (fixed_os [''a.vert.glsl'', ''b.frag.glsl''] (compiler_missing 0)) [''build.py''] ())))
       (calls (final_state
         (main (fixed_os [''a.vert.glsl'', ''b.frag.glsl''] (exits_with 0 0)) [''build.py''] ())))"
  using same_inputs_same_invocations
      [of "fixed_os [''a.vert.glsl'', ''b.frag.glsl''] (exits_with 0 0)" "()"
        "[''a.vert.glsl'', ''b.frag.glsl'']" "()"
        "fixed_os [''b.frag.glsl'', ''a.vert.glsl''] (exits_with 1 2)" "()"
        "[''b.frag.glsl'', ''a.vert.glsl'']" "()" "[''build.py'']" "()" "()"]
    same_inputs_same_invocations
      [of "fixed_os [''a.vert.glsl'', ''b.frag.glsl''] (exits_with 0 0)" "()"
        "[''a.vert.glsl'', ''b.frag.glsl'']" "()"
        "fixed_os [''a.vert.glsl'', ''b.frag.glsl''] (compiler_missing 0)" "()"
        "[''a.vert.glsl'', ''b.frag.glsl'']" "()" "[''build.py'']" "()" "()"]
  by (simp add: run_defs2)

text \<open>
  With the listing and the arguments the same and nothing else required, as claim C9 is
  worded, the calls can differ: with the compiler missing in one of the two runs, that
  run ends at its first compiler call and never starts the runner.
\<close>

theorem tool_missing_in_one_run_counterexample:
  "listdir (fixed_os [''a.vert.glsl'', ''b.frag.glsl''] (exits_with 0 0)) ''shaders'' () =
     (Inr [''a.vert.glsl'', ''b.frag.glsl''], ())
   \<and> listdir (fixed_os [''a.vert.glsl'', ''b.frag.glsl''] (compiler_missing 0)) ''shaders'' () =
     (Inr [''a.vert.glsl'', ''b.frag.glsl''], ())
   \<and> main (fixed_os [''a.vert.glsl'', ''b.frag.glsl''] (exits_with 0 0)) [''build.py''] () =
       Done \<lparr>world = (), calls = [ListDir ''shaders'',
         Run [''glslangValidator'', ''-V'', ''shaders/a.vert.glsl'', ''-o'',
              ''shaders/bin/a.vert.spv''] None None,
         Run [''glslangValidator'', ''-V'', ''shaders/b.frag.glsl'', ''-o'',
              ''shaders/bin/b.frag.spv''] None None,
         Run [''odin'', ''run'', ''spark'', ''-o:none'', ''-debug''] None None]\<rparr>
   \<and> main (fixed_os [''a.vert.glsl'', ''b.frag.glsl''] (compiler_missing 0)) [''build.py''] () =
       Uncaught FileNotFoundError \<lparr>world = (), calls = [ListDir ''shaders'',
         Run [''glslangValidator'', ''-V'', ''shaders/a.vert.glsl'', ''-o'',
              ''shaders/bin/a.vert.spv''] None None]\<rparr>
   \<and> mset [Run [''glslangValidator'', ''-V'', ''shaders/a.vert.glsl'', ''-o'',
              ''shaders/bin/a.vert.spv''] None None,
         Run [''glslangValidator'', ''-V'', ''shaders/b.frag.glsl'', ''-o'',
              ''shaders/bin/b.frag.spv''] None None] \<noteq>
       mset [Run [''glslangValidator'', ''-V'', ''shaders/a.vert.glsl'', ''-o'',
              ''shaders/bin/a.vert.spv''] None None]"
  by (simp add: run_defs2)

section \<open>Empty segments\<close>

text \<open>
  Claim C10, for the entries that the loop reaches. An entry of the listing that splits
  into three segments of which one or more is empty, such as \<open>.vert.glsl\<close> or
  \<open>a.b.\<close>, contains a dot and is compiled like any other: when the compiler process of
  every eligible entry before it could be started, the run starts the compiler on
  \<open>shaders/entry\<close>, and the output path is made of the first two segments as they are,
  \<open>shaders/bin/.vert.spv\<close> for \<open>.vert.glsl\<close>.
\<close>

theorem empty_segments_compiled_when_reached:
  assumes "listdir env ''shaders'' w = (Inr (before @ entry # after), w')"
    and "start_all env (map shader_cmd (filter eligible before)) w' = Some w1"
    and "str_split CHR ''.'' entry = [a, b, c]" and "a = [] \<or> b = [] \<or> c = []"
    and "CHR ''/'' \<notin> set entry"
  shows "CHR ''.'' \<in> set entry
    \<and> Run [''glslangValidator'', ''-V'', ''shaders/'' @ entry, ''-o'',
           ''shaders/bin/'' @ a @ ''.'' @ b @ ''.spv''] None None
        \<in> set (calls (final_state (main env argv w)))
    \<and> loop_body env entry s =
        run_cmd env [''glslangValidator'', ''-V'', ''shaders/'' @ entry, ''-o'',
                     ''shaders/bin/'' @ a @ ''.'' @ b @ ''.spv''] s"
proof -
  have "length (str_split CHR ''.'' entry) = 3"
    using assms(3) by simp
  then have "count_list entry CHR ''.'' = 2"
    by (simp add: length_str_split)
  then have el: "eligible entry"
    by (simp add: eligible_two_dots)
  have cmd: "shader_cmd entry = [''glslangValidator'', ''-V'', ''shaders/'' @ entry, ''-o'',
      ''shaders/bin/'' @ a @ ''.'' @ b @ ''.spv'']"
    using shader_name_three [OF assms(3) no_slash_take [OF assms(5)]]
      os_path_join_shaders [OF no_slash_take [OF assms(5)]]
    by (simp add: shader_cmd_def)
  have "Run (shader_cmd entry) None None \<in> set (calls (final_state (main env argv w)))"
    using assms(1,2) el by (rule main_reaches)
  moreover have "loop_body env entry s = run_cmd env (shader_cmd entry) s"
    using el by (simp add: loop_body_eligible)
  moreover have "CHR ''.'' \<in> set entry"
    using el by (simp add: eligible_def)
  ultimately show ?thesis
    unfolding cmd by simp
qed

theorem empty_segments_compiled_when_reached_witness:
  "listdir (fixed_os [''a.vert.glsl'', ''.vert.glsl'', ''a.b.''] (exits_with 1 0)) ''shaders'' () =
     (Inr ([''a.vert.glsl''] @ ''.vert.glsl'' # [''a.b.'']), ())
   \<and> start_all (fixed_os [''a.vert.glsl'', ''.vert.glsl'', ''a.b.''] (exits_with 1 0))
       (map shader_cmd (filter eligible [''a.vert.glsl''])) () = Some ()
   \<and> str_split CHR ''.'' ''.vert.glsl'' = [[], ''vert'', ''glsl'']
   \<and> CHR ''/'' \<notin> set ''.vert.glsl''
   \<and> Run [''glslangValidator'', ''-V'', ''shaders/.vert.glsl'', ''-o'',
          ''shaders/bin/.vert.spv''] None None
       \<in> set (calls (final_state
         (main (fixed_os [''a.vert.glsl'', ''.vert.glsl'', ''a.b.''] (exits_with 1 0))
           [''build.py''] ())))
   \<and> listdir (fixed_os [''a.vert.glsl'', ''.vert.glsl'', ''a.b.''] (exits_with 1 0)) ''shaders'' () =
     (Inr ([''a.vert.glsl'', ''.vert.glsl''] @ ''a.b.'' # []), ())
   \<and> start_all (fixed_os [''a.vert.glsl'', ''.vert.glsl'', ''a.b.''] (exits_with 1 0))
       (map shader_cmd (filter eligible [''a.vert.glsl'', ''.vert.glsl''])) () = Some ()
   \<and> str_split CHR ''.'' ''a.b.'' = [''a'', ''b'', []]
   \<and> CHR ''/'' \<notin> set ''a.b.''
   \<and> Run [''glslangValidator'', ''-V'', ''shaders/a.b.'', ''-o'',
          ''shaders/bin/a.b.spv''] None None
       \<in> set (calls (final_state
         (main (fixed_os [''a.vert.glsl'', ''.vert.glsl'', ''a.b.''] (exits_with 1 0))
           [''build.py''] ())))"
  using empty_segments_compiled_when_reached
      [of "fixed_os [''a.vert.glsl'', ''.vert.glsl'', ''a.b.''] (exits_with 1 0)" "()"
        "[''a.vert.glsl'']" "''.vert.glsl''" "[''a.b.'']" "()" "()" "[]" "''vert''" "''glsl''"
        "[''build.py'']" "\<lparr>world = (), calls = []\<rparr>"]
    empty_segments_compiled_when_reached
      [of "fixed_os [''a.vert.glsl'', ''.vert.glsl'', ''a.b.''] (exits_with 1 0)" "()"
        "[''a.vert.glsl'', ''.vert.glsl'']" "''a.b.''" "[]" "()" "()" "''a''" "''b''" "[]"
        "[''build.py'']" "\<lparr>world = (), calls = []\<rparr>"]
  by (simp add: run_defs2)

text \<open>
  For every such entry in every run, as claim C10 is worded, this fails: listed after an
  entry whose compiler process cannot be started, \<open>.vert.glsl\<close> is never compiled.
\<close>

theorem empty_segment_entry_not_reached_counterexample:
  "listdir (fixed_os [''a.vert.glsl'', ''.vert.glsl''] (compiler_missing 0)) ''shaders'' () =
     (Inr [''a.vert.glsl'', ''.vert.glsl''], ())
   \<and> CHR ''.'' \<in> set ''.vert.glsl''
   \<and> str_split CHR ''.'' ''.vert.glsl'' = [[], ''vert'', ''glsl'']
   \<and> main (fixed_os [''a.vert.glsl'', ''.vert.glsl''] (compiler_missing 0)) [''build.py''] () =
       Uncaught FileNotFoundError \<lparr>world = (), calls = [ListDir ''shaders'',
         Run [''glslangValidator'', ''-V'', ''shaders/a.vert.glsl'', ''-o'',
              ''shaders/bin/a.vert.spv''] None None]\<rparr>
   \<and> Run [''glslangValidator'', ''-V'', ''shaders/.vert.glsl'', ''-o'',
          ''shaders/bin/.vert.spv''] None None
       \<notin> set (calls (final_state
         (main (fixed_os [''a.vert.glsl'', ''.vert.glsl''] (compiler_missing 0)) [''build.py''] ())))"
  by (simp add: run_defs2)

end
